theory Spec2Isabelle
  imports Complex_Main "HOL-Library.Multiset"
begin

section \<open>Data model\<close>

text \<open>
  The analytics core of \<^verbatim>\<open>src/services/firebaseServiceReal.ts\<close>: badge awarding,
  consistency and streak, the thirty-day engagement metrics and the at-risk list of the
  admin dashboard.

  Modelling conventions.
  \<^item> A JavaScript number is the rational it denotes. Counters, reflection depths and
    \<^verbatim>\<open>Math.round\<close> results are integers and have type \<^typ>\<open>int\<close> or \<^typ>\<open>nat\<close>; sums and
    products of them are exact in the code as well. Quiz scores, ratios, averages and
    trends have type \<^typ>\<open>rat\<close>, and every division, multiplication, addition and
    subtraction the code performs on them is rounded to the nearest IEEE 754 double
    (\<open>ddiv\<close>, \<open>dmul\<close>, \<open>dadd\<close>, \<open>dsub\<close> below). \<^verbatim>\<open>NaN\<close> and \<^verbatim>\<open>Infinity\<close> are outside
    the model: a quiz with a zero total is excluded by hypothesis wherever the ratio
    \<^verbatim>\<open>score / total\<close> matters.
  \<^item> Two quotients of integers are kept exact, rounding them to the nearest double
    being without effect on what the code takes from them: \<^verbatim>\<open>activeDays / Math.min(30, n)\<close>
    of the consistency score, with a denominator of at most 30 and its hundredfold
    rounded to an integer, and the mean reflection depth of the deep-thinker badge,
    which is only compared with 4.
  \<^item> An optional field is an \<^typ>\<open>'a option\<close>; an object is truthy, \<^verbatim>\<open>undefined\<close> is not.
  \<^item> A \<^verbatim>\<open>Date\<close> is a number of milliseconds of local time: \<^verbatim>\<open>getTime()\<close> plus the
    offset of the zone, which is constant (no daylight saving), so that every calendar
    day has \<open>86400000\<close> ms and midnight is a multiple of it. That number for
    \<^verbatim>\<open>new Date(s)\<close> is a parameter \<open>gt\<close> of the functions that parse dates, the one of
    the clock \<^verbatim>\<open>new Date()\<close> a parameter \<open>now\<close>, and \<^verbatim>\<open>d.toISOString().split('T')[0]\<close>,
    the date in UTC of the \<^verbatim>\<open>Date\<close> \<open>d\<close>, a parameter \<open>toIso\<close>.
  \<^item> A function parameter or local variable whose name is also a field name is
    written with a prime or shortened (\<open>es\<close> for \<^verbatim>\<open>entries\<close>).
\<close>

text \<open>
  Modelled from the spec: the type declarations of \<^verbatim>\<open>../types\<close> (\<^verbatim>\<open>DailyEntry\<close>,
  \<^verbatim>\<open>Badge\<close>, \<^verbatim>\<open>StudentData\<close>, \<^verbatim>\<open>DailyEngagement\<close>, \<^verbatim>\<open>DailyEngagementMetrics\<close>,
  \<^verbatim>\<open>AtRiskStudent\<close>) are not among the sources. The records follow the data model of
  the specification, with the field names the service reads and writes. Field names
  that occur in two types are told apart by a prefix: \<^verbatim>\<open>Goal.text\<close> is \<open>goal_text\<close>,
  \<^verbatim>\<open>Reflection.text\<close> is \<open>reflection_text\<close>, \<^verbatim>\<open>Badge.id\<close> and \<^verbatim>\<open>Badge.name\<close> are
  \<open>badge_id\<close> and \<open>badge_name\<close>, \<^verbatim>\<open>DailyEngagement.date\<close> is \<open>day_date\<close>,
  \<^verbatim>\<open>StudentData.dailyEngagement\<close> is \<open>engagement\<close>,
  \<^verbatim>\<open>AtRiskStudent.id\<close> and \<^verbatim>\<open>AtRiskStudent.name\<close> are \<open>risk_id\<close> and \<open>risk_name\<close>.
\<close>

record Goal =
  goal_text :: string
  completed :: bool

record Reflection =
  reflection_text :: string
  depth :: int

record QuizEvaluation =
  score :: rat
  total :: rat

record DailyEntry =
  date :: string
  goal :: "Goal option"
  reflection :: "Reflection option"
  quizEvaluation :: "QuizEvaluation option"

record Badge =
  badge_id :: string
  badge_name :: string
  description :: string
  icon :: string

record DailyEngagement =
  day_date :: string
  engagementScore :: int
  activitiesCompleted :: nat
  hasGoal :: bool
  hasReflection :: bool
  hasQuiz :: bool

record DailyEngagementMetrics =
  dailyEngagement :: "DailyEngagement list"
  averageDaily :: rat
  activeDays :: nat
  streakDays :: nat
  weeklyTrend :: rat
  monthlyTrend :: rat

record StudentData =
  studentId :: string
  name :: string
  consistencyScore :: int
  streak :: nat
  badges :: "Badge list"
  entries :: "DailyEntry list"
  engagement :: "DailyEngagementMetrics option"

record AtRiskStudent =
  risk_id :: string
  risk_name :: string
  reason :: string
  missedGoals :: nat
  avgReflectionDepth :: rat
  avgTestScore :: int

section \<open>JavaScript library functions used by the service\<close>

definition msPerDay :: int where
  "msPerDay = 86400000"

text \<open>\<^verbatim>\<open>d.setHours(0, 0, 0, 0)\<close>: the start of the calendar day of \<open>t\<close>.\<close>

definition setHours0 :: "int \<Rightarrow> int" where
  "setHours0 t = t - t mod msPerDay"

text \<open>
  Arithmetic on doubles. \<open>toDouble x\<close> is the double nearest to \<open>x\<close>, a tie going to the
  even significand: with \<open>2 ^ e \<le> \<bar>x\<bar> < 2 ^ (e + 1)\<close> the doubles around \<open>x\<close> are the
  multiples of \<open>2 ^ (e - 52)\<close>, and of \<open>2 ^ - 1074\<close> in the subnormal range. Each
  operation of the code returns the double nearest to the exact result.
\<close>

text \<open>The number of binary digits of a positive integer.\<close>

function bitLength :: "int \<Rightarrow> int" where
  "bitLength n = (if n \<le> 0 then 0 else 1 + bitLength (n div 2))"
  by pat_completeness auto
termination
  by (relation "measure nat") auto

definition pow2 :: "int \<Rightarrow> rat" where
  "pow2 k = (if 0 \<le> k then 2 ^ nat k else 1 / 2 ^ nat (- k))"

text \<open>For \<open>0 < y\<close>, the \<open>e\<close> with \<open>2 ^ e \<le> y < 2 ^ (e + 1)\<close>.\<close>

definition log2floor :: "rat \<Rightarrow> int" where
  "log2floor y =
     (if 1 \<le> y then bitLength \<lfloor>y\<rfloor> - 1 else - bitLength (\<lceil>1 / y\<rceil> - 1))"

definition roundHalfEven :: "rat \<Rightarrow> int" where
  "roundHalfEven x =
     (let f = \<lfloor>x\<rfloor>; r = x - of_int f
      in if r < 1 / 2 then f else if 1 / 2 < r then f + 1 else if even f then f else f + 1)"

definition toDouble :: "rat \<Rightarrow> rat" where
  "toDouble x =
     (if x = 0 then 0
      else let ulp = pow2 (max (log2floor \<bar>x\<bar> - 52) (- 1074))
           in sgn x * of_int (roundHalfEven (\<bar>x\<bar> / ulp)) * ulp)"

definition ddiv :: "rat \<Rightarrow> rat \<Rightarrow> rat" where
  "ddiv a b = toDouble (a / b)"

definition dmul :: "rat \<Rightarrow> rat \<Rightarrow> rat" where
  "dmul a b = toDouble (a * b)"

definition dadd :: "rat \<Rightarrow> rat \<Rightarrow> rat" where
  "dadd a b = toDouble (a + b)"

definition dsub :: "rat \<Rightarrow> rat \<Rightarrow> rat" where
  "dsub a b = toDouble (a - b)"

text \<open>\<^verbatim>\<open>Math.round\<close>: the nearest integer, a tie going up.\<close>

definition jsRound :: "rat \<Rightarrow> int" where
  "jsRound x = \<lfloor>x + 1 / 2\<rfloor>"

text \<open>\<^verbatim>\<open>Math.round(x * 10) / 10\<close>.\<close>

definition round1 :: "rat \<Rightarrow> rat" where
  "round1 x = ddiv (of_int (jsRound (dmul x 10))) 10"

text \<open>\<^verbatim>\<open>Array.prototype.slice(start, end)\<close>, negative indices counting from the end.\<close>

definition sliceIndex :: "int \<Rightarrow> int \<Rightarrow> nat" where
  "sliceIndex len k = nat (if k < 0 then max (len + k) 0 else min k len)"

definition jsSlice :: "int \<Rightarrow> int \<Rightarrow> 'a list \<Rightarrow> 'a list" where
  "jsSlice start end xs =
     (let len = int (length xs); a = sliceIndex len start; b = sliceIndex len end
      in take (b - a) (drop a xs))"

definition jsSliceFrom :: "int \<Rightarrow> 'a list \<Rightarrow> 'a list" where
  "jsSliceFrom start xs = jsSlice start (int (length xs)) xs"

text \<open>\<^verbatim>\<open>String.prototype.includes\<close>: \<open>sub\<close> occurs in \<open>s\<close> as a contiguous run.\<close>

fun startsWith :: "string \<Rightarrow> string \<Rightarrow> bool" where
  "startsWith s [] = True"
| "startsWith [] (c # cs) = False"
| "startsWith (d # ds) (c # cs) = (d = c \<and> startsWith ds cs)"

fun includesStr :: "string \<Rightarrow> string \<Rightarrow> bool" where
  "includesStr [] sub = (sub = [])"
| "includesStr (d # ds) sub = (startsWith (d # ds) sub \<or> includesStr ds sub)"

text \<open>The decimal digits of a counter, as a template literal prints it.\<close>

definition digitChar :: "nat \<Rightarrow> char" where
  "digitChar d = char_of (48 + d)"

fun showNat :: "nat \<Rightarrow> string" where
  "showNat n = (if n < 10 then [digitChar n] else showNat (n div 10) @ [digitChar (n mod 10)])"

text \<open>
  \<^verbatim>\<open>Map\<close> keeps its keys in insertion order: \<^verbatim>\<open>set\<close> on a key already present
  replaces the value where it stands, on a new key appends.
\<close>

fun mapSet :: "('k \<times> 'v) list \<Rightarrow> 'k \<Rightarrow> 'v \<Rightarrow> ('k \<times> 'v) list" where
  "mapSet [] k v = [(k, v)]"
| "mapSet ((k', v') # m) k v = (if k' = k then (k, v) # m else (k', v') # mapSet m k v)"

definition newMap :: "('k \<times> 'v) list \<Rightarrow> ('k \<times> 'v) list" where
  "newMap kvs = foldl (\<lambda>m kv. mapSet m (fst kv) (snd kv)) [] kvs"

definition mapHas :: "('k \<times> 'v) list \<Rightarrow> 'k \<Rightarrow> bool" where
  "mapHas m k = (k \<in> set (map fst m))"

definition mapValues :: "('k \<times> 'v) list \<Rightarrow> 'v list" where
  "mapValues m = map snd m"

section \<open>Badges\<close>

definition ALL_BADGES :: "Badge list" where
  "ALL_BADGES =
    [\<lparr>badge_id = ''streak-7'', badge_name = ''7-Day Streak'',
      description = ''Maintained a consistent streak for 7 days in a row!'',
      icon = [CHR 0xEF, CHR 0xA3, CHR 0xBF, CHR 0xC3, CHR 0xBC, CHR 0xC3, CHR 0xAE, CHR 0xE2, CHR 0x80, CHR 0xA2]\<rparr>,
     \<lparr>badge_id = ''consistency-90'', badge_name = ''High Achiever'',
      description = ''Achieved a consistency score of 90% or higher.'',
      icon = [CHR 0xEF, CHR 0xA3, CHR 0xBF, CHR 0xC3, CHR 0xBC, CHR 0xC3, CHR 0xA8, CHR 0xC3, CHR 0x9C]\<rparr>,
     \<lparr>badge_id = ''deep-thinker'', badge_name = ''Deep Thinker'',
      description = ''Consistently provided deep, thoughtful reflections (average depth of 4+).'',
      icon = [CHR 0xEF, CHR 0xA3, CHR 0xBF, CHR 0xC3, CHR 0xBC, CHR 0xC3, CHR 0x9F, CHR 0xE2, CHR 0x80, CHR 0xA0]\<rparr>,
     \<lparr>badge_id = ''quiz-whiz'', badge_name = ''Quiz Whiz'',
      description = ''Mastered the daily quizzes with an average score of 90% or higher.'',
      icon = [CHR 0xEF, CHR 0xA3, CHR 0xBF, CHR 0xC3, CHR 0xBC, CHR 0xC3, CHR 0xA9, CHR 0xC3, CHR 0x98]\<rparr>,
     \<lparr>badge_id = ''perfect-week'', badge_name = ''Perfect Week'',
      description = ''Completed every goal for a full 7 days.'',
      icon = [CHR 0xE2, CHR 0x80, CHR 0x9A, CHR 0xE2, CHR 0x89, CHR 0xA0, CHR 0xC3, CHR 0xAA]\<rparr>]"

text \<open>\<^verbatim>\<open>ALL_BADGES.find(b => b.id === bid)!\<close>\<close>

definition findBadge :: "string \<Rightarrow> Badge" where
  "findBadge bid = the (find (\<lambda>b. badge_id b = bid) ALL_BADGES)"

text \<open>One \<^verbatim>\<open>if (cond && !earnedBadges.has(bid)) earnedBadges.set(bid, ...)\<close>.\<close>

definition award :: "bool \<Rightarrow> string \<Rightarrow> (string \<times> Badge) list \<Rightarrow> (string \<times> Badge) list" where
  "award cond bid earnedBadges =
     (if cond \<and> \<not> mapHas earnedBadges bid then mapSet earnedBadges bid (findBadge bid)
      else earnedBadges)"

definition reflectionsOf :: "StudentData \<Rightarrow> Reflection option list" where
  "reflectionsOf student = filter (\<lambda>r. r \<noteq> None) (map reflection (entries student))"

definition quizzesOf :: "StudentData \<Rightarrow> QuizEvaluation option list" where
  "quizzesOf student = filter (\<lambda>q. q \<noteq> None) (map quizEvaluation (entries student))"

definition avgDepth :: "Reflection option list \<Rightarrow> rat" where
  "avgDepth reflections =
     of_int (foldl (\<lambda>sum r. sum + depth (the r)) 0 reflections) / of_nat (length reflections)"

definition avgScore :: "QuizEvaluation option list \<Rightarrow> rat" where
  "avgScore quizzes =
     dmul (ddiv (foldl (\<lambda>sum q. dadd sum (ddiv (score (the q)) (total (the q)))) 0 quizzes)
             (of_nat (length quizzes)))
       100"

text \<open>The map \<^verbatim>\<open>earnedBadges\<close> after the four checks.\<close>

definition earnedBadges :: "StudentData \<Rightarrow> (string \<times> Badge) list" where
  "earnedBadges student =
     (let earned0 = newMap (map (\<lambda>b. (badge_id b, b)) (badges student));
          earned1 = award (streak student \<ge> 7) ''streak-7'' earned0;
          earned2 = award (consistencyScore student \<ge> 90) ''consistency-90'' earned1;
          reflections = reflectionsOf student;
          earned3 = (if length reflections > 2
                     then award (avgDepth reflections \<ge> 4) ''deep-thinker'' earned2
                     else earned2);
          quizzes = quizzesOf student;
          earned4 = (if length quizzes > 0
                     then award (avgScore quizzes \<ge> 90) ''quiz-whiz'' earned3
                     else earned3)
      in earned4)"

text \<open>\<^verbatim>\<open>student.badges = Array.from(earnedBadges.values()); return student\<close>\<close>

definition checkAndAwardBadges :: "StudentData \<Rightarrow> StudentData" where
  "checkAndAwardBadges student = student\<lparr>badges := mapValues (earnedBadges student)\<rparr>"

section \<open>Consistency and streak\<close>

text \<open>\<^verbatim>\<open>entry.goal || entry.reflection || entry.quizEvaluation\<close>\<close>

definition isActive :: "DailyEntry \<Rightarrow> bool" where
  "isActive entry = (goal entry \<noteq> None \<or> reflection entry \<noteq> None \<or> quizEvaluation entry \<noteq> None)"

text \<open>
  The streak loop over \<^verbatim>\<open>recentEntries\<close>, from index \<open>i\<close> on: the list argument is
  \<^verbatim>\<open>recentEntries.slice(i)\<close>, and either \<^verbatim>\<open>break\<close> returns the counter as it stands.
\<close>

fun streakLoop :: "(string \<Rightarrow> int) \<Rightarrow> int \<Rightarrow> DailyEntry list \<Rightarrow> int \<Rightarrow> nat \<Rightarrow> nat" where
  "streakLoop gt today [] i streak' = streak'"
| "streakLoop gt today (entry # rest) i streak' =
     (let entryDate = setHours0 (gt (date entry));
          expectedDate = today - i * msPerDay
      in if entryDate = expectedDate
         then (if isActive entry then streakLoop gt today rest (i + 1) (streak' + 1) else streak')
         else streak')"

definition calculateConsistencyAndStreak ::
  "(string \<Rightarrow> int) \<Rightarrow> int \<Rightarrow> DailyEntry list \<Rightarrow> int \<times> nat" where
  "calculateConsistencyAndStreak gt now es =
     (if length es = 0 then (0, 0)
      else
        let sortedEntries = sort_key (\<lambda>e. gt (date e)) es;
            last30Days = jsSliceFrom (- 30) sortedEntries;
            activeDays' = length (filter isActive last30Days);
            consistencyScore' =
              jsRound (of_nat activeDays' / of_nat (min 30 (length es)) * 100);
            today = setHours0 now;
            recentEntries = sort_key (\<lambda>e. - gt (date e)) es
        in (consistencyScore', streakLoop gt today recentEntries 0 0))"

section \<open>Daily engagement\<close>

text \<open>
  The body of \<^verbatim>\<open>dayEntries.forEach\<close>, one definition for each of its three
  \<^verbatim>\<open>if\<close> blocks. The running totals \<^verbatim>\<open>engagementScore\<close>, \<^verbatim>\<open>activitiesCompleted\<close>,
  \<^verbatim>\<open>hasGoal\<close>, \<^verbatim>\<open>hasReflection\<close> and \<^verbatim>\<open>hasQuiz\<close> are the fields of the day's record.
\<close>

definition goalStep :: "DailyEntry \<Rightarrow> DailyEngagement \<Rightarrow> DailyEngagement" where
  "goalStep entry acc =
     (case goal entry of
        None \<Rightarrow> acc
      | Some g \<Rightarrow>
          acc\<lparr>hasGoal := True,
              activitiesCompleted := activitiesCompleted acc + 1,
              engagementScore := engagementScore acc + 30 + (if completed g then 10 else 0)\<rparr>)"

definition reflectionStep :: "DailyEntry \<Rightarrow> DailyEngagement \<Rightarrow> DailyEngagement" where
  "reflectionStep entry acc =
     (case reflection entry of
        None \<Rightarrow> acc
      | Some r \<Rightarrow>
          acc\<lparr>hasReflection := True,
              activitiesCompleted := activitiesCompleted acc + 1,
              engagementScore :=
                engagementScore acc + depth r * 10 + (if depth r \<ge> 4 then 5 else 0)\<rparr>)"

definition quizStep :: "DailyEntry \<Rightarrow> DailyEngagement \<Rightarrow> DailyEngagement" where
  "quizStep entry acc =
     (case quizEvaluation entry of
        None \<Rightarrow> acc
      | Some q \<Rightarrow>
          (let quizPerformance = dmul (ddiv (score q) (total q)) 100
           in acc\<lparr>hasQuiz := True,
                  activitiesCompleted := activitiesCompleted acc + 1,
                  engagementScore :=
                    engagementScore acc + jsRound (dmul quizPerformance (1 / 4))
                      + (if quizPerformance \<ge> 90 then 5 else 0)\<rparr>))"

definition forEachBody :: "DailyEngagement \<Rightarrow> DailyEntry \<Rightarrow> DailyEngagement" where
  "forEachBody acc entry = quizStep entry (reflectionStep entry (goalStep entry acc))"

text \<open>
  The function mapped over \<^verbatim>\<open>last30Days\<close>; \<open>d\<close> is the day's local midnight and
  \<^verbatim>\<open>dateString\<close> its date in UTC.
\<close>

definition dayEngagement ::
  "(string \<Rightarrow> int) \<Rightarrow> (int \<Rightarrow> string) \<Rightarrow> DailyEntry list \<Rightarrow> int \<Rightarrow> DailyEngagement" where
  "dayEngagement gt toIso es d =
     (let dateString = toIso d;
          dayEntries = filter (\<lambda>entry. setHours0 (gt (date entry)) = d) es;
          acc = foldl forEachBody
                  \<lparr>day_date = dateString, engagementScore = 0, activitiesCompleted = 0,
                   hasGoal = False, hasReflection = False, hasQuiz = False\<rparr>
                  dayEntries
      in acc\<lparr>engagementScore := min 100 (engagementScore acc)\<rparr>)"

text \<open>\<^verbatim>\<open>for (let i = 29; i >= 0; i--)\<close>, pushing the midnight of the day \<open>i\<close> days ago.\<close>

definition last30Days :: "int \<Rightarrow> int list" where
  "last30Days now = map (\<lambda>i. setHours0 (now - int i * msPerDay)) (rev [0..<30])"

text \<open>\<^verbatim>\<open>days.reduce((sum, day) => sum + day.engagementScore, 0)\<close>\<close>

definition sumScores :: "DailyEngagement list \<Rightarrow> int" where
  "sumScores days = foldl (\<lambda>sum day. sum + engagementScore day) 0 days"

text \<open>
  The engagement streak loop, from the last day backwards: the argument is the part of
  the reversed array not yet visited.
\<close>

fun engagementStreakLoop :: "DailyEngagement list \<Rightarrow> nat \<Rightarrow> nat" where
  "engagementStreakLoop [] streakDays' = streakDays'"
| "engagementStreakLoop (day # rest) streakDays' =
     (if engagementScore day > 0 then engagementStreakLoop rest (streakDays' + 1)
      else streakDays')"

text \<open>\<^verbatim>\<open>previous > 0 ? ((last - previous) / previous) * 100 : 0\<close>\<close>

definition trend :: "rat \<Rightarrow> rat \<Rightarrow> rat" where
  "trend lastAverage previousAverage =
     (if previousAverage > 0
      then dmul (ddiv (dsub lastAverage previousAverage) previousAverage) 100 else 0)"

definition calculateDailyEngagement ::
  "(string \<Rightarrow> int) \<Rightarrow> (int \<Rightarrow> string) \<Rightarrow> int \<Rightarrow> DailyEntry list \<Rightarrow> DailyEngagementMetrics" where
  "calculateDailyEngagement gt toIso now es =
     (if length es = 0
      then \<lparr>dailyEngagement = [], averageDaily = 0, activeDays = 0, streakDays = 0,
            weeklyTrend = 0, monthlyTrend = 0\<rparr>
      else
        let days = map (dayEngagement gt toIso es) (last30Days now);
            totalEngagement = sumScores days;
            averageDaily' = ddiv (of_int totalEngagement) 30;
            activeDays' = length (filter (\<lambda>day. engagementScore day > 0) days);
            streakDays' = engagementStreakLoop (rev days) 0;
            last7Average = ddiv (of_int (sumScores (jsSliceFrom (- 7) days))) 7;
            previous7Average = ddiv (of_int (sumScores (jsSlice (- 14) (- 7) days))) 7;
            weeklyTrend' = trend last7Average previous7Average;
            last14Average = ddiv (of_int (sumScores (jsSliceFrom (- 14) days))) 14;
            previous14Average = ddiv (of_int (sumScores (jsSlice (- 28) (- 14) days))) 14;
            monthlyTrend' = trend last14Average previous14Average
        in \<lparr>dailyEngagement = days, averageDaily = round1 averageDaily',
            activeDays = activeDays', streakDays = streakDays',
            weeklyTrend = round1 weeklyTrend', monthlyTrend = round1 monthlyTrend'\<rparr>)"

section \<open>At-risk students of the admin dashboard\<close>

text \<open>\<^verbatim>\<open>allEntries.filter(e => e.date.includes(student.studentId))\<close>\<close>

definition studentEntries :: "DailyEntry list \<Rightarrow> StudentData \<Rightarrow> DailyEntry list" where
  "studentEntries allEntries student =
     filter (\<lambda>e. includesStr (date e) (studentId student)) allEntries"

text \<open>\<^verbatim>\<open>e.goal?.completed\<close> as a condition.\<close>

definition goalCompleted :: "DailyEntry \<Rightarrow> bool" where
  "goalCompleted e = (case goal e of None \<Rightarrow> False | Some g \<Rightarrow> completed g)"

definition missedGoalsOf :: "DailyEntry list \<Rightarrow> nat" where
  "missedGoalsOf es = length (filter (\<lambda>e. \<not> goalCompleted e) es)"

definition avgDepthOf :: "DailyEntry list \<Rightarrow> rat" where
  "avgDepthOf es =
     (let studentReflections = map (\<lambda>e. the (reflection e)) (filter (\<lambda>e. reflection e \<noteq> None) es)
      in if length studentReflections > 0
         then ddiv (of_int (foldl (\<lambda>sum r. sum + depth r) 0 studentReflections))
                (of_nat (length studentReflections))
         else 0)"

definition avgScoreOf :: "DailyEntry list \<Rightarrow> rat" where
  "avgScoreOf es =
     (let studentQuizzes = map (\<lambda>e. the (quizEvaluation e)) (filter (\<lambda>e. quizEvaluation e \<noteq> None) es)
      in if length studentQuizzes > 0
         then dmul (ddiv (foldl (\<lambda>sum q. dadd sum (ddiv (score q) (total q))) 0 studentQuizzes)
                      (of_nat (length studentQuizzes)))
                100
         else 0)"

text \<open>The predicate of \<^verbatim>\<open>students.filter\<close>.\<close>

definition atRiskFilter :: "DailyEntry list \<Rightarrow> StudentData \<Rightarrow> bool" where
  "atRiskFilter allEntries student =
     (let es = studentEntries allEntries student
      in missedGoalsOf es > 2 \<or> avgDepthOf es < 2 \<or> consistencyScore student < 60)"

text \<open>The function of the \<^verbatim>\<open>.map\<close> that follows it.\<close>

definition atRiskMap :: "DailyEntry list \<Rightarrow> StudentData \<Rightarrow> AtRiskStudent" where
  "atRiskMap allEntries student =
     (let es = studentEntries allEntries student;
          missed = missedGoalsOf es;
          avgD = avgDepthOf es;
          avgS = avgScoreOf es;
          reason' = (if missed > 2 then ''Missed '' @ showNat missed @ '' goals''
                     else if avgD < 2 then ''Low reflection depth''
                     else if consistencyScore student < 60 then ''Low consistency score''
                     else ''Multiple issues'')
      in \<lparr>risk_id = studentId student, risk_name = name student, reason = reason',
          missedGoals = missed, avgReflectionDepth = round1 avgD, avgTestScore = jsRound avgS\<rparr>)"

definition atRiskStudents :: "StudentData list \<Rightarrow> DailyEntry list \<Rightarrow> AtRiskStudent list" where
  "atRiskStudents students allEntries =
     map (atRiskMap allEntries) (filter (atRiskFilter allEntries) students)"

text \<open>The \<^verbatim>\<open>atRiskStudents\<close> field of the dashboard: \<^verbatim>\<open>atRiskStudents.slice(0, 5)\<close>.\<close>

definition dashboardAtRisk :: "StudentData list \<Rightarrow> DailyEntry list \<Rightarrow> AtRiskStudent list" where
  "dashboardAtRisk students allEntries = jsSlice 0 5 (atRiskStudents students allEntries)"

section \<open>Dates of concrete inputs\<close>

text \<open>
  In a zone whose offset from UTC is \<open>off\<close> milliseconds, the number of
  \<^verbatim>\<open>new Date(s)\<close> for the strings the service stores, the output of \<^verbatim>\<open>toISOString()\<close>
  (\<^verbatim>\<open>YYYY-MM-DDTHH:mm:ss.sssZ\<close>) and its date-only prefix \<^verbatim>\<open>YYYY-MM-DD\<close>, is
  \<open>localTime off s\<close>, and \<^verbatim>\<open>d.toISOString().split('T')[0]\<close> is \<open>utcDate off d\<close>. With
  \<open>off = 0\<close> they are \<open>isoTime\<close> and \<open>isoDate\<close>. They instantiate the parameters \<open>gt\<close>
  and \<open>toIso\<close> on concrete inputs; the theorems hold for every \<open>gt\<close> and \<open>toIso\<close>.
\<close>

definition digitVal :: "char \<Rightarrow> int" where
  "digitVal c = int (of_char c) - 48"

definition digits :: "string \<Rightarrow> int" where
  "digits s = foldl (\<lambda>n c. n * 10 + digitVal c) 0 s"

definition daysFromCivil :: "int \<Rightarrow> int \<Rightarrow> int \<Rightarrow> int" where
  "daysFromCivil y m d =
     (let y' = (if m \<le> 2 then y - 1 else y);
          era = y' div 400;
          yoe = y' mod 400;
          doy = (153 * (if m > 2 then m - 3 else m + 9) + 2) div 5 + d - 1;
          doe = yoe * 365 + yoe div 4 - yoe div 100 + doy
      in era * 146097 + doe - 719468)"

definition field :: "nat \<Rightarrow> nat \<Rightarrow> string \<Rightarrow> int" where
  "field start n s = digits (take n (drop start s))"

definition isoTime :: "string \<Rightarrow> int" where
  "isoTime s =
     daysFromCivil (field 0 4 s) (field 5 2 s) (field 8 2 s) * msPerDay
       + field 11 2 s * 3600000 + field 14 2 s * 60000 + field 17 2 s * 1000 + field 20 3 s"

text \<open>Year, month and day of the day number \<open>z\<close>, counted from 1970-01-01.\<close>

definition civilFromDays :: "int \<Rightarrow> int \<times> int \<times> int" where
  "civilFromDays z =
     (let z' = z + 719468;
          era = z' div 146097;
          doe = z' mod 146097;
          yoe = (doe - doe div 1460 + doe div 36524 - doe div 146096) div 365;
          doy = doe - (365 * yoe + yoe div 4 - yoe div 100);
          mp = (5 * doy + 2) div 153;
          d = doy - (153 * mp + 2) div 5 + 1;
          m = (if mp < 10 then mp + 3 else mp - 9);
          y = yoe + era * 400 + (if m \<le> 2 then 1 else 0)
      in (y, m, d))"

definition padStart :: "nat \<Rightarrow> string \<Rightarrow> string" where
  "padStart n s = replicate (n - length s) CHR ''0'' @ s"

definition isoDate :: "int \<Rightarrow> string" where
  "isoDate t =
     (case civilFromDays (t div msPerDay) of
        (y, m, d) \<Rightarrow>
          padStart 4 (showNat (nat y)) @ ''-'' @ padStart 2 (showNat (nat m)) @ ''-''
            @ padStart 2 (showNat (nat d)))"

definition localTime :: "int \<Rightarrow> string \<Rightarrow> int" where
  "localTime off s = isoTime s + off"

definition utcDate :: "int \<Rightarrow> int \<Rightarrow> string" where
  "utcDate off d = isoDate (d - off)"

section \<open>Definitions that follow the specification\<close>

text \<open>
  The window of the consistency score as the specification words it: the last
  \<open>min 30 n\<close> of the \<open>n\<close> records, ordered by date.
\<close>

definition lastRecords :: "nat \<Rightarrow> 'a list \<Rightarrow> 'a list" where
  "lastRecords n xs = drop (length xs - n) xs"

definition consistencyWindow :: "(string \<Rightarrow> int) \<Rightarrow> DailyEntry list \<Rightarrow> DailyEntry list" where
  "consistencyWindow gt es = lastRecords (min 30 (length es)) (sort_key (\<lambda>e. gt (date e)) es)"

definition consistencySpec :: "(string \<Rightarrow> int) \<Rightarrow> DailyEntry list \<Rightarrow> int" where
  "consistencySpec gt es =
     (if es = [] then 0
      else jsRound (100 * of_nat (length (filter isActive (consistencyWindow gt es)))
                      / of_nat (length (consistencyWindow gt es))))"

text \<open>
  The streak as the specification words it. A record lies \<open>i\<close> calendar days before
  today when its date and the clock, both cut to the calendar day, are \<open>i\<close> days apart;
  the walk counts day \<open>i\<close> when that day has a record and no record of that day is
  without goal, reflection and quiz.
\<close>

definition onDay :: "(string \<Rightarrow> int) \<Rightarrow> int \<Rightarrow> nat \<Rightarrow> DailyEntry \<Rightarrow> bool" where
  "onDay gt now i e = (setHours0 (gt (date e)) = setHours0 now - int i * msPerDay)"

definition activeDay :: "(string \<Rightarrow> int) \<Rightarrow> int \<Rightarrow> DailyEntry list \<Rightarrow> nat \<Rightarrow> bool" where
  "activeDay gt now es i =
     ((\<exists>e \<in> set es. onDay gt now i e) \<and> (\<forall>e \<in> set es. onDay gt now i e \<longrightarrow> isActive e))"

text \<open>The store's invariant: at most one record for each calendar day.\<close>

definition oneRecordPerDay :: "(string \<Rightarrow> int) \<Rightarrow> DailyEntry list \<Rightarrow> bool" where
  "oneRecordPerDay gt es = distinct (map (\<lambda>e. setHours0 (gt (date e))) es)"

text \<open>No record is dated on a calendar day after today.\<close>

definition noneAfterToday :: "(string \<Rightarrow> int) \<Rightarrow> int \<Rightarrow> DailyEntry list \<Rightarrow> bool" where
  "noneAfterToday gt now es = (\<forall>e \<in> set es. setHours0 (gt (date e)) \<le> setHours0 now)"


text \<open>
  The per-day engagement score as the specification words it: the points of a record
  for its goal, its reflection and its quiz, summed over the records of the day and
  capped at 100. \<open>quizPoints\<close> takes the quiz performance \<open>score / total * 100\<close> and its
  quarter in double arithmetic; \<open>quizPointsExact\<close> is \<open>round (25 * score / total)\<close> and
  the bonus from 0.90 on, both of the exact ratio.
\<close>

definition goalPoints :: "DailyEntry \<Rightarrow> int" where
  "goalPoints e =
     (case goal e of None \<Rightarrow> 0 | Some g \<Rightarrow> 30 + (if completed g then 10 else 0))"

definition reflectionPoints :: "DailyEntry \<Rightarrow> int" where
  "reflectionPoints e =
     (case reflection e of None \<Rightarrow> 0
      | Some r \<Rightarrow> 10 * depth r + (if depth r \<ge> 4 then 5 else 0))"

definition quizPoints :: "DailyEntry \<Rightarrow> int" where
  "quizPoints e =
     (case quizEvaluation e of None \<Rightarrow> 0
      | Some q \<Rightarrow> jsRound (dmul (dmul (ddiv (score q) (total q)) 100) (1 / 4))
                  + (if dmul (ddiv (score q) (total q)) 100 \<ge> 90 then 5 else 0))"


definition entryPoints :: "DailyEntry \<Rightarrow> int" where
  "entryPoints e = goalPoints e + reflectionPoints e + quizPoints e"

definition recordsOfDay :: "(string \<Rightarrow> int) \<Rightarrow> DailyEntry list \<Rightarrow> int \<Rightarrow> DailyEntry list" where
  "recordsOfDay gt es d = filter (\<lambda>e. setHours0 (gt (date e)) = d) es"

definition dayScoreSpec :: "(string \<Rightarrow> int) \<Rightarrow> DailyEntry list \<Rightarrow> int \<Rightarrow> int" where
  "dayScoreSpec gt es d = min 100 (sum_list (map entryPoints (recordsOfDay gt es d)))"






text \<open>A record whose only activity is a quiz answered with score 0.\<close>

definition onlyZeroQuiz :: "DailyEntry \<Rightarrow> bool" where
  "onlyZeroQuiz e =
     (goal e = None \<and> reflection e = None
      \<and> (case quizEvaluation e of None \<Rightarrow> False | Some q \<Rightarrow> score q = 0 \<and> total q \<noteq> 0))"

text \<open>The indices of the days that count as active in the engagement metrics.\<close>

definition positiveDays :: "DailyEngagementMetrics \<Rightarrow> nat set" where
  "positiveDays m =
     set (filter (\<lambda>j. 0 < engagementScore (dailyEngagement m ! j))
            [0..<length (dailyEngagement m)])"

text \<open>
  The badge conditions on the aggregate as it stands: the depths of all reflections and
  their mean, the \<^verbatim>\<open>score / total\<close> ratios of all quizzes and their average in percent,
  and for each badge of the catalogue the condition under which it is earned. The
  perfect-week badge has none. \<open>quizAverage\<close> is the average as the code computes it,
  each quotient, each addition from left to right, the division by the count and the
  multiplication by 100 in double arithmetic; \<open>quizAverageExact\<close> is the exact mean of
  the exact ratios, in percent.
\<close>

definition reflectionDepths :: "StudentData \<Rightarrow> int list" where
  "reflectionDepths student = map (\<lambda>r. depth (the r)) (reflectionsOf student)"

definition mean :: "rat list \<Rightarrow> rat" where
  "mean xs = sum_list xs / of_nat (length xs)"

definition quizRatios :: "StudentData \<Rightarrow> rat list" where
  "quizRatios student = map (\<lambda>q. ddiv (score (the q)) (total (the q))) (quizzesOf student)"

definition doubleSum :: "rat list \<Rightarrow> rat" where
  "doubleSum xs = foldl dadd 0 xs"

definition quizAverage :: "StudentData \<Rightarrow> rat" where
  "quizAverage student =
     dmul (ddiv (doubleSum (quizRatios student)) (of_nat (length (quizRatios student)))) 100"

definition quizAverageExact :: "StudentData \<Rightarrow> rat" where
  "quizAverageExact student =
     mean (map (\<lambda>q. score (the q) / total (the q)) (quizzesOf student)) * 100"

definition badgeCondition :: "StudentData \<Rightarrow> string \<Rightarrow> bool" where
  "badgeCondition student bid =
     (if bid = ''streak-7'' then 7 \<le> streak student
      else if bid = ''consistency-90'' then 90 \<le> consistencyScore student
      else if bid = ''deep-thinker''
        then 2 < length (reflectionDepths student)
             \<and> 4 \<le> mean (map of_int (reflectionDepths student))
      else if bid = ''quiz-whiz''
        then 1 \<le> length (quizRatios student) \<and> 90 \<le> quizAverage student
      else False)"

definition earnedNow :: "StudentData \<Rightarrow> string list" where
  "earnedNow student = filter (badgeCondition student) (map badge_id ALL_BADGES)"

text \<open>Every entry of the map is stored under the id of its badge.\<close>

definition keyed :: "(string \<times> Badge) list \<Rightarrow> bool" where
  "keyed m = (\<forall>kv \<in> set m. badge_id (snd kv) = fst kv)"

definition badgeIds :: "StudentData \<Rightarrow> string set" where
  "badgeIds student = set (map badge_id (badges student))"

text \<open>
  The at-risk rule as the specification words it, on a student and the student's own
  records: more than 2 goals present and not completed, or a mean reflection depth
  below 2 (0 without reflections), or a consistency score below 60.
\<close>

definition missedPresentGoals :: "DailyEntry list \<Rightarrow> nat" where
  "missedPresentGoals es =
     length (filter (\<lambda>e. case goal e of None \<Rightarrow> False | Some g \<Rightarrow> \<not> completed g) es)"

definition depthsOf :: "DailyEntry list \<Rightarrow> int list" where
  "depthsOf es = map (\<lambda>e. depth (the (reflection e))) (filter (\<lambda>e. reflection e \<noteq> None) es)"

definition meanDepth :: "DailyEntry list \<Rightarrow> rat" where
  "meanDepth es = (if depthsOf es = [] then 0 else mean (map of_int (depthsOf es)))"

definition atRiskAsClaimed :: "DailyEntry list \<Rightarrow> StudentData \<Rightarrow> bool" where
  "atRiskAsClaimed ownRecords student =
     (2 < missedPresentGoals ownRecords \<or> meanDepth ownRecords < 2
      \<or> consistencyScore student < 60)"

text \<open>The number of activities a record contributes to \<^verbatim>\<open>activitiesCompleted\<close>.\<close>

definition activityCount :: "DailyEntry \<Rightarrow> nat" where
  "activityCount e =
     (if goal e = None then 0 else 1) + (if reflection e = None then 0 else 1)
       + (if quizEvaluation e = None then 0 else 1)"

text \<open>No two records carry the same timestamp.\<close>

definition distinctTimestamps :: "(string \<Rightarrow> int) \<Rightarrow> DailyEntry list \<Rightarrow> bool" where
  "distinctTimestamps gt es = distinct (map (\<lambda>e. gt (date e)) es)"

section \<open>Concrete inputs\<close>

text \<open>The clock and the records on which the theorems below are instantiated.\<close>

definition goalEntry :: "string \<Rightarrow> bool \<Rightarrow> DailyEntry" where
  "goalEntry d c = \<lparr>date = d, goal = Some \<lparr>goal_text = ''Practice'', completed = c\<rparr>,
                     reflection = None, quizEvaluation = None\<rparr>"

definition clock :: int where
  "clock = isoTime ''2024-03-10T15:00:00.000Z''"

definition threeDays :: "DailyEntry list" where
  "threeDays = [goalEntry ''2024-03-05T10:00:00.000Z'' True,
                goalEntry ''2024-03-09T21:30:00.000Z'' False,
                goalEntry ''2024-03-10T08:00:00.000Z'' True,
                goalEntry ''2024-03-08T07:15:00.000Z'' True]"




definition goalReflectionEntry :: "string \<Rightarrow> bool \<Rightarrow> int \<Rightarrow> DailyEntry" where
  "goalReflectionEntry d c dep =
     \<lparr>date = d, goal = Some \<lparr>goal_text = ''Practice'', completed = c\<rparr>,
      reflection = Some \<lparr>reflection_text = ''Went well'', depth = dep\<rparr>,
      quizEvaluation = None\<rparr>"

definition quizEntry :: "string \<Rightarrow> rat \<Rightarrow> rat \<Rightarrow> DailyEntry" where
  "quizEntry d s t =
     \<lparr>date = d, goal = None, reflection = None,
      quizEvaluation = Some \<lparr>score = s, total = t\<rparr>\<rparr>"


definition zeroQuizToday :: "DailyEntry list" where
  "zeroQuizToday = [quizEntry ''2024-03-10T08:00:00.000Z'' 0 5]"

definition reflectionEntry :: "string \<Rightarrow> int \<Rightarrow> DailyEntry" where
  "reflectionEntry d dep =
     \<lparr>date = d, goal = None,
      reflection = Some \<lparr>reflection_text = ''Went well'', depth = dep\<rparr>,
      quizEvaluation = None\<rparr>"

definition learner :: "nat \<Rightarrow> int \<Rightarrow> Badge list \<Rightarrow> DailyEntry list \<Rightarrow> StudentData" where
  "learner st cs bs es =
     \<lparr>studentId = ''u1'', name = ''Asha'', consistencyScore = cs, streak = st,
      badges = bs, entries = es, engagement = None\<rparr>"




definition veteran :: StudentData where
  "veteran = learner 2 95 [findBadge ''streak-7''] []"

definition pupil :: "string \<Rightarrow> int \<Rightarrow> StudentData" where
  "pupil sid cs =
     \<lparr>studentId = sid, name = ''Student '' @ sid, consistencyScore = cs, streak = 0,
      badges = [], entries = [], engagement = None\<rparr>"

definition marchDone :: "DailyEntry list" where
  "marchDone = [goalReflectionEntry ''2024-03-10T08:00:00.000Z'' True 4,
                goalReflectionEntry ''2024-03-09T21:30:00.000Z'' True 4]"

definition classroom :: "StudentData list" where
  "classroom = [pupil ''u1'' 50, pupil ''2024-03'' 80, pupil ''u2'' 95, pupil ''u3'' 70,
                pupil ''u4'' 100, pupil ''u5'' 61, pupil ''u6'' 10]"

definition emptyEntry :: "string \<Rightarrow> DailyEntry" where
  "emptyEntry d = \<lparr>date = d, goal = None, reflection = None, quizEvaluation = None\<rparr>"

definition threeDaysShuffled :: "DailyEntry list" where
  "threeDaysShuffled = [goalEntry ''2024-03-10T08:00:00.000Z'' True,
                        goalEntry ''2024-03-08T07:15:00.000Z'' True,
                        goalEntry ''2024-03-05T10:00:00.000Z'' True,
                        goalEntry ''2024-03-09T21:30:00.000Z'' False]"



definition ownRecords :: "DailyEntry list" where
  "ownRecords = [goalReflectionEntry ''2024-03-10T08:00:00.000Z'' True 5,
                 goalReflectionEntry ''2024-03-09T21:30:00.000Z'' True 5,
                 goalReflectionEntry ''2024-03-08T07:15:00.000Z'' True 5]"

text \<open>The offset of a zone five and a half hours east of UTC.\<close>

definition eastOffset :: int where
  "eastOffset = 19800000"

section \<open>Library functions\<close>

declare bitLength.simps [simp del]

lemma toDouble_0 [simp]: "toDouble 0 = 0"
  by (simp add: toDouble_def)

lemma double_of_0 [simp]: "ddiv 0 b = 0" "dmul 0 b = 0" "dmul a 0 = 0" "dadd 0 0 = 0"
  by (simp_all add: ddiv_def dmul_def dadd_def)

text \<open>
  Known values: 0.1, a third, a value that is a double already, and the two ties around
  \<open>2 ^ 53\<close>, which go to the even significand.
\<close>

lemma toDouble_known:
  "toDouble (1 / 10) = 3602879701896397 / 36028797018963968"
  "toDouble (1 / 3) = 6004799503160661 / 18014398509481984"
  "toDouble (- (187 / 2)) = - (187 / 2)"
  "toDouble 9007199254740993 = 9007199254740992"
  "toDouble 9007199254740995 = 9007199254740996"
  by code_simp+

lemma jsSliceFrom_neg: "0 < k \<Longrightarrow> jsSliceFrom (- k) xs = drop (length xs - nat k) xs"
  by (auto simp: jsSliceFrom_def jsSlice_def sliceIndex_def Let_def max_def nat_diff_distrib'
      intro: arg_cong2[where f=drop])

lemma jsRound_range:
  assumes "0 \<le> x" "x \<le> of_int n"
  shows "0 \<le> jsRound x \<and> jsRound x \<le> n"
proof -
  have "x + 1 / 2 < of_int (n + 1)" using assms by simp
  then have "\<lfloor>x + 1 / 2\<rfloor> < n + 1" by (simp only: floor_less_iff)
  moreover have "0 \<le> \<lfloor>x + 1 / 2\<rfloor>" using assms by simp
  ultimately show ?thesis by (simp add: jsRound_def)
qed




lemma timestamps:
  "isoTime ''2024-03-10T15:00:00.000Z'' = 1710082800000"
  "isoTime ''2024-03-10T08:00:00.000Z'' = 1710057600000"
  "isoTime ''2024-03-10T09:00:00.000Z'' = 1710061200000"
  "isoTime ''2024-03-09T21:30:00.000Z'' = 1710019800000"
  "isoTime ''2024-03-08T07:15:00.000Z'' = 1709882100000"
  "isoTime ''2024-03-05T10:00:00.000Z'' = 1709632800000"
  "isoTime ''2024-03-11T00:30:00.000Z'' = 1710117000000"
  by (simp_all add: isoTime_def field_def digits_def digitVal_def daysFromCivil_def msPerDay_def)

lemmas streak_eval = calculateConsistencyAndStreak_def activeDay_def onDay_def isActive_def
  oneRecordPerDay_def noneAfterToday_def goalEntry_def clock_def setHours0_def msPerDay_def
  Let_def timestamps jsSliceFrom_def jsSlice_def sliceIndex_def jsRound_def

section \<open>Daily engagement: the thirty days\<close>

lemma setHours0_shift: "setHours0 (t - i * msPerDay) = setHours0 t - i * msPerDay"
proof -
  have "(t - i * msPerDay) mod msPerDay = (t + (- i) * msPerDay) mod msPerDay" by simp
  also have "\<dots> = t mod msPerDay" by (simp only: mod_mult_self1)
  finally show ?thesis by (simp add: setHours0_def)
qed

lemma length_last30Days: "length (last30Days now) = 30"
  by (simp add: last30Days_def)

lemma last30Days_nth:
  assumes "i < 30"
  shows "last30Days now ! i = setHours0 now - (29 - int i) * msPerDay"
proof -
  have "rev [0..<30] ! i = 29 - i" using assms by (simp add: rev_nth)
  then have "last30Days now ! i = setHours0 (now - int (29 - i) * msPerDay)"
    using assms by (simp add: last30Days_def)
  also have "int (29 - i) = 29 - int i" using assms by simp
  finally show ?thesis by (simp only: setHours0_shift)
qed

lemma dailyEngagement_nonempty:
  "es \<noteq> [] \<Longrightarrow> dailyEngagement (calculateDailyEngagement gt toIso now es)
      = map (dayEngagement gt toIso es) (last30Days now)"
  by (simp add: calculateDailyEngagement_def Let_def)

lemma forEachBody_normal:
  "forEachBody acc e =
     acc\<lparr>engagementScore := engagementScore acc + entryPoints e,
         activitiesCompleted := activitiesCompleted acc + activityCount e,
         hasGoal := hasGoal acc \<or> goal e \<noteq> None,
         hasReflection := hasReflection acc \<or> reflection e \<noteq> None,
         hasQuiz := hasQuiz acc \<or> quizEvaluation e \<noteq> None\<rparr>"
  by (cases "goal e"; cases "reflection e"; cases "quizEvaluation e")
    (simp_all add: forEachBody_def goalStep_def reflectionStep_def quizStep_def Let_def
      entryPoints_def goalPoints_def reflectionPoints_def quizPoints_def activityCount_def)

lemma foldl_forEachBody_normal:
  "foldl forEachBody acc xs =
     acc\<lparr>engagementScore := engagementScore acc + sum_list (map entryPoints xs),
         activitiesCompleted := activitiesCompleted acc + sum_list (map activityCount xs),
         hasGoal := hasGoal acc \<or> list_ex (\<lambda>e. goal e \<noteq> None) xs,
         hasReflection := hasReflection acc \<or> list_ex (\<lambda>e. reflection e \<noteq> None) xs,
         hasQuiz := hasQuiz acc \<or> list_ex (\<lambda>e. quizEvaluation e \<noteq> None) xs\<rparr>"
proof (induction xs arbitrary: acc)
  case Nil
  then show ?case by simp
next
  case (Cons e xs)
  show ?case
    by (simp only: foldl_Cons Cons.IH forEachBody_normal[of acc e]) (simp add: ac_simps)
qed

lemma dayEngagement_fields:
  "day_date (dayEngagement gt toIso es d) = toIso d"
  "engagementScore (dayEngagement gt toIso es d) = dayScoreSpec gt es d"
  "activitiesCompleted (dayEngagement gt toIso es d)
     = sum_list (map activityCount (recordsOfDay gt es d))"
  "hasGoal (dayEngagement gt toIso es d) = list_ex (\<lambda>e. goal e \<noteq> None) (recordsOfDay gt es d)"
  "hasReflection (dayEngagement gt toIso es d)
     = list_ex (\<lambda>e. reflection e \<noteq> None) (recordsOfDay gt es d)"
  "hasQuiz (dayEngagement gt toIso es d)
     = list_ex (\<lambda>e. quizEvaluation e \<noteq> None) (recordsOfDay gt es d)"
  by (simp_all add: dayEngagement_def Let_def foldl_forEachBody_normal dayScoreSpec_def
      recordsOfDay_def)

lemma engagementScore_dayEngagement:
  "engagementScore (dayEngagement gt toIso es d) = dayScoreSpec gt es d"
  by (rule dayEngagement_fields)

lemma dailyEngagement_nth:
  assumes "es \<noteq> []" "i < 30"
  shows "dailyEngagement (calculateDailyEngagement gt toIso now es) ! i
           = dayEngagement gt toIso es (setHours0 now - (29 - int i) * msPerDay)"
  using assms by (simp add: dailyEngagement_nonempty length_last30Days last30Days_nth)

lemma hasQuiz_dayEngagement:
  "hasQuiz (dayEngagement gt toIso es d) = (\<exists>e \<in> set (recordsOfDay gt es d). quizEvaluation e \<noteq> None)"
  by (simp add: dayEngagement_fields list_ex_iff)





lemma engagementStreakLoop_takeWhile:
  "engagementStreakLoop xs n = n + length (takeWhile (\<lambda>day. 0 < engagementScore day) xs)"
  by (induction xs arbitrary: n) simp_all

lemma length_takeWhile_stop:
  assumes "k < length xs" "\<not> P (xs ! k)"
  shows "length (takeWhile P xs) \<le> k"
proof (rule ccontr)
  assume "\<not> length (takeWhile P xs) \<le> k"
  then have "k < length (takeWhile P xs)" by simp
  then have "P (takeWhile P xs ! k)" by (metis nth_mem set_takeWhileD)
  moreover have "takeWhile P xs ! k = xs ! k"
    using \<open>k < length (takeWhile P xs)\<close> by (rule takeWhile_nth)
  ultimately show False using assms(2) by simp
qed

lemma positiveDays_set:
  "positiveDays m =
     {j. j < length (dailyEngagement m) \<and> 0 < engagementScore (dailyEngagement m ! j)}"
  by (auto simp: positiveDays_def)

lemma activeDays_positiveDays:
  "activeDays (calculateDailyEngagement gt toIso now es)
     = card (positiveDays (calculateDailyEngagement gt toIso now es))"
proof (cases "es = []")
  case True
  then show ?thesis by (simp add: calculateDailyEngagement_def positiveDays_set)
next
  case False
  then show ?thesis
    by (simp add: calculateDailyEngagement_def Let_def positiveDays_set length_filter_conv_card)
qed

lemma streakDays_takeWhile:
  "es \<noteq> [] \<Longrightarrow> streakDays (calculateDailyEngagement gt toIso now es)
     = length (takeWhile (\<lambda>day. 0 < engagementScore day)
         (rev (dailyEngagement (calculateDailyEngagement gt toIso now es))))"
  by (simp add: calculateDailyEngagement_def Let_def engagementStreakLoop_takeWhile)

lemma entryPoints_onlyZeroQuiz: "onlyZeroQuiz e \<Longrightarrow> entryPoints e = 0"
  by (auto simp: onlyZeroQuiz_def entryPoints_def goalPoints_def reflectionPoints_def
      quizPoints_def jsRound_def floor_eq_iff split: option.splits)

lemma sum_list_zero: "\<forall>x \<in> set xs. x = (0::int) \<Longrightarrow> sum_list xs = 0"
  by (induction xs) simp_all

section \<open>Badges\<close>

subsection \<open>The insertion-ordered map\<close>

lemma mapSet_absent: "k \<notin> set (map fst m) \<Longrightarrow> mapSet m k v = m @ [(k, v)]"
  by (induction m) auto

lemma keys_mapSet_list:
  "map fst (mapSet m k v) = (if k \<in> set (map fst m) then map fst m else map fst m @ [k])"
  by (induction m) (auto split: if_splits)

lemma keys_mapSet: "set (map fst (mapSet m k v)) = insert k (set (map fst m))"
  by (simp only: keys_mapSet_list) auto

lemma keys_mapSet_image: "fst ` set (mapSet m k v) = insert k (fst ` set m)"
  using keys_mapSet[of m k v] by simp

lemma set_mapSet: "set (mapSet m k v) \<subseteq> insert (k, v) (set m)"
  by (induction m) (auto split: if_splits)

lemma foldl_mapSet_distinct:
  "distinct (map fst (m @ kvs)) \<Longrightarrow> foldl (\<lambda>m kv. mapSet m (fst kv) (snd kv)) m kvs = m @ kvs"
proof (induction kvs arbitrary: m)
  case Nil
  then show ?case by simp
next
  case (Cons kv kvs)
  have "fst kv \<notin> set (map fst m)" using Cons.prems by auto
  then have step: "mapSet m (fst kv) (snd kv) = m @ [kv]" by (simp add: mapSet_absent)
  have "distinct (map fst ((m @ [kv]) @ kvs))" using Cons.prems by simp
  from Cons.IH[OF this] show ?case by (simp add: step)
qed

lemma newMap_distinct: "distinct (map fst kvs) \<Longrightarrow> newMap kvs = kvs"
  using foldl_mapSet_distinct[of "[]" kvs] by (simp add: newMap_def)

lemma distinct_mapSet: "distinct (map fst m) \<Longrightarrow> distinct (map fst (mapSet m k v))"
  by (simp only: keys_mapSet_list) auto

lemma foldl_mapSet_props:
  "set (map fst (foldl (\<lambda>m kv. mapSet m (fst kv) (snd kv)) m kvs)) = set (map fst m) \<union> set (map fst kvs)
   \<and> (distinct (map fst m) \<longrightarrow> distinct (map fst (foldl (\<lambda>m kv. mapSet m (fst kv) (snd kv)) m kvs)))
   \<and> set (foldl (\<lambda>m kv. mapSet m (fst kv) (snd kv)) m kvs) \<subseteq> set m \<union> set kvs"
proof (induction kvs arbitrary: m)
  case Nil
  then show ?case by simp
next
  case (Cons kv kvs)
  have sub: "set (mapSet m (fst kv) (snd kv)) \<subseteq> insert kv (set m)"
    using set_mapSet[of m "fst kv" "snd kv"] by simp
  note IH = Cons.IH[of "mapSet m (fst kv) (snd kv)"]
  have k: "set (map fst (foldl (\<lambda>m kv. mapSet m (fst kv) (snd kv)) m (kv # kvs)))
            = set (map fst m) \<union> set (map fst (kv # kvs))"
    using IH by (simp add: keys_mapSet_image)
  have d: "distinct (map fst m) \<longrightarrow>
            distinct (map fst (foldl (\<lambda>m kv. mapSet m (fst kv) (snd kv)) m (kv # kvs)))"
    using IH by (simp add: distinct_mapSet)
  have s: "set (foldl (\<lambda>m kv. mapSet m (fst kv) (snd kv)) m (kv # kvs)) \<subseteq> set m \<union> set (kv # kvs)"
    using IH sub by auto
  show ?case using k d s by blast
qed

lemma keys_newMap: "set (map fst (newMap kvs)) = set (map fst kvs)"
  using foldl_mapSet_props[of "[]" kvs] by (simp add: newMap_def)

lemma distinct_newMap: "distinct (map fst (newMap kvs))"
  using foldl_mapSet_props[of "[]" kvs] by (simp add: newMap_def)

lemma set_newMap: "set (newMap kvs) \<subseteq> set kvs"
  using foldl_mapSet_props[of "[]" kvs] by (simp add: newMap_def)

subsection \<open>Awarding one badge\<close>

lemma award_eq:
  "award c bid m = (if c \<and> bid \<notin> set (map fst m) then m @ [(bid, findBadge bid)] else m)"
  by (simp add: award_def mapHas_def mapSet_absent)

lemma keys_award: "set (map fst (award c bid m)) = set (map fst m) \<union> (if c then {bid} else {})"
  by (auto simp: award_eq)

lemma distinct_award: "distinct (map fst m) \<Longrightarrow> distinct (map fst (award c bid m))"
  by (auto simp: award_eq)

lemma keyed_award: "keyed m \<Longrightarrow> badge_id (findBadge bid) = bid \<Longrightarrow> keyed (award c bid m)"
  by (auto simp: award_eq keyed_def)

lemma award_present: "(c \<longrightarrow> bid \<in> set (map fst m)) \<Longrightarrow> award c bid m = m"
  by (auto simp: award_eq)

lemma findBadge_id:
  "badge_id (findBadge ''streak-7'') = ''streak-7''"
  "badge_id (findBadge ''consistency-90'') = ''consistency-90''"
  "badge_id (findBadge ''deep-thinker'') = ''deep-thinker''"
  "badge_id (findBadge ''quiz-whiz'') = ''quiz-whiz''"
  by (simp_all add: findBadge_def ALL_BADGES_def)


lemma keyed_ids: "keyed m \<Longrightarrow> map badge_id (mapValues m) = map fst m"
  by (simp add: keyed_def mapValues_def)

lemma foldl_depth:
  "foldl (\<lambda>sum r. sum + depth (the r)) a rs = a + sum_list (map (\<lambda>r. depth (the r)) rs)"
  by (induction rs arbitrary: a) simp_all

lemma foldl_ratio:
  "foldl (\<lambda>sum q. dadd sum (ddiv (score (the q)) (total (the q)))) a qs
     = foldl dadd a (map (\<lambda>q. ddiv (score (the q)) (total (the q))) qs)"
  by (induction qs arbitrary: a) simp_all

lemma of_int_sum_list_rat: "(of_int (sum_list xs) :: rat) = sum_list (map of_int xs)"
  by (induction xs) simp_all

lemma avgDepth_mean: "avgDepth (reflectionsOf s) = mean (map of_int (reflectionDepths s))"
  by (simp add: avgDepth_def mean_def reflectionDepths_def foldl_depth of_int_sum_list_rat)

lemma avgScore_quizAverage: "avgScore (quizzesOf s) = quizAverage s"
  by (simp add: avgScore_def quizAverage_def doubleSum_def quizRatios_def foldl_ratio)

lemma length_depths: "length (reflectionDepths s) = length (reflectionsOf s)"
  by (simp add: reflectionDepths_def)

lemma length_ratios: "length (quizRatios s) = length (quizzesOf s)"
  by (simp add: quizRatios_def)

lemma earnedBadges_chain:
  "earnedBadges s =
     award (badgeCondition s ''quiz-whiz'') ''quiz-whiz''
       (award (badgeCondition s ''deep-thinker'') ''deep-thinker''
         (award (badgeCondition s ''consistency-90'') ''consistency-90''
           (award (badgeCondition s ''streak-7'') ''streak-7''
             (newMap (map (\<lambda>b. (badge_id b, b)) (badges s))))))"
proof -
  have c: "(if P then award c bid m else m) = award (P \<and> c) bid m" for P c bid m
    by (simp add: award_def)
  have n: "(0 < k) = (1 \<le> k)" for k :: nat by auto
  show ?thesis
    by (simp add: earnedBadges_def Let_def c badgeCondition_def avgDepth_mean
        avgScore_quizAverage length_depths length_ratios n)
qed

lemma earnedNow_set:
  "set (earnedNow s) =
     (if badgeCondition s ''streak-7'' then {''streak-7''} else {})
     \<union> (if badgeCondition s ''consistency-90'' then {''consistency-90''} else {})
     \<union> (if badgeCondition s ''deep-thinker'' then {''deep-thinker''} else {})
     \<union> (if badgeCondition s ''quiz-whiz'' then {''quiz-whiz''} else {})"
proof -
  have pw: "\<not> badgeCondition s ''perfect-week''" by (simp add: badgeCondition_def)
  have ids: "map badge_id ALL_BADGES
      = [''streak-7'', ''consistency-90'', ''deep-thinker'', ''quiz-whiz'', ''perfect-week'']"
    by (simp add: ALL_BADGES_def)
  show ?thesis unfolding earnedNow_def ids using pw by auto
qed

lemma keys_earnedBadges:
  "set (map fst (earnedBadges s)) = badgeIds s \<union> set (earnedNow s)"
proof -
  have k0: "set (map fst (newMap (map (\<lambda>b. (badge_id b, b)) (badges s)))) = badgeIds s"
    by (simp only: keys_newMap) (simp add: badgeIds_def comp_def)
  show ?thesis
    unfolding earnedBadges_chain earnedNow_set
    by (simp only: keys_award k0) auto
qed

lemma keyed_earnedBadges: "keyed (earnedBadges s)"
proof -
  have "keyed (newMap (map (\<lambda>b. (badge_id b, b)) (badges s)))"
    using set_newMap[of "map (\<lambda>b. (badge_id b, b)) (badges s)"] by (auto simp: keyed_def)
  then show ?thesis unfolding earnedBadges_chain
    by (intro keyed_award findBadge_id)
qed

lemma distinct_earnedBadges: "distinct (map fst (earnedBadges s))"
  unfolding earnedBadges_chain by (intro distinct_award distinct_newMap)

lemma badgeIds_check: "badgeIds (checkAndAwardBadges s) = badgeIds s \<union> set (earnedNow s)"
proof -
  have "badgeIds (checkAndAwardBadges s) = set (map badge_id (mapValues (earnedBadges s)))"
    by (simp add: badgeIds_def checkAndAwardBadges_def)
  also have "\<dots> = set (map fst (earnedBadges s))"
    by (simp only: keyed_ids[OF keyed_earnedBadges])
  finally show ?thesis by (simp only: keys_earnedBadges)
qed



text \<open>The double arithmetic of the quiz averages among the concrete inputs.\<close>

lemma average_doubles:
  "ddiv 95 100 = 4278419646001971 / 4503599627370496"
  "ddiv 92 100 = 8286623314361713 / 9007199254740992"
  "dadd 0 (4278419646001971 / 4503599627370496) = 4278419646001971 / 4503599627370496"
  "dadd (4278419646001971 / 4503599627370496) (8286623314361713 / 9007199254740992)
     = 2105432825795707 / 1125899906842624"
  "ddiv (2105432825795707 / 1125899906842624) 2 = 2105432825795707 / 2251799813685248"
  "dmul (2105432825795707 / 2251799813685248) 100 = 187 / 2"
  "ddiv 17 20 = 7656119366529843 / 9007199254740992"
  "ddiv 19 20 = 4278419646001971 / 4503599627370496"
  "dadd 0 (7656119366529843 / 9007199254740992) = 7656119366529843 / 9007199254740992"
  "dadd (7656119366529843 / 9007199254740992) (4278419646001971 / 4503599627370496)
     = 2026619832316723 / 1125899906842624"
  "ddiv (2026619832316723 / 1125899906842624) 2 = 2026619832316723 / 2251799813685248"
  "dmul (2026619832316723 / 2251799813685248) 100 = 6333186975989759 / 70368744177664"
  by code_simp+

lemmas badge_eval = earnedNow_def ALL_BADGES_def badgeCondition_def reflectionDepths_def
  reflectionsOf_def quizRatios_def quizzesOf_def quizAverage_def quizAverageExact_def
  doubleSum_def mean_def learner_def reflectionEntry_def quizEntry_def badgeIds_def
  average_doubles

lemma check_fields:
  "entries (checkAndAwardBadges s) = entries s"
  "streak (checkAndAwardBadges s) = streak s"
  "consistencyScore (checkAndAwardBadges s) = consistencyScore s"
  "badges (checkAndAwardBadges s) = mapValues (earnedBadges s)"
  by (simp_all add: checkAndAwardBadges_def)

lemma badgeCondition_check: "badgeCondition (checkAndAwardBadges s) bid = badgeCondition s bid"
  by (simp add: badgeCondition_def reflectionDepths_def reflectionsOf_def quizRatios_def
      quizAverage_def
      quizzesOf_def check_fields)

lemma earnedBadges_check: "earnedBadges (checkAndAwardBadges s) = earnedBadges s"
proof -
  let ?E = "earnedBadges s"
  have "keyed m \<Longrightarrow> map (\<lambda>b. (badge_id b, b)) (map snd m) = m" for m
    by (induction m) (auto simp: keyed_def)
  then have pairs: "map (\<lambda>b. (badge_id b, b)) (mapValues ?E) = ?E"
    using keyed_earnedBadges[of s] by (simp add: mapValues_def)
  have m0: "newMap (map (\<lambda>b. (badge_id b, b)) (badges (checkAndAwardBadges s))) = ?E"
    by (simp only: check_fields pairs newMap_distinct[OF distinct_earnedBadges])
  have has: "badgeCondition s bid \<longrightarrow> bid \<in> set (map fst ?E)" if "bid \<in> set (map badge_id ALL_BADGES)" for bid
    using that by (simp only: keys_earnedBadges) (simp add: earnedNow_def)
  have ids: "''streak-7'' \<in> set (map badge_id ALL_BADGES)"
    "''consistency-90'' \<in> set (map badge_id ALL_BADGES)"
    "''deep-thinker'' \<in> set (map badge_id ALL_BADGES)"
    "''quiz-whiz'' \<in> set (map badge_id ALL_BADGES)"
    by (simp_all add: ALL_BADGES_def)
  show ?thesis
    by (simp only: earnedBadges_chain[of "checkAndAwardBadges s"] m0 badgeCondition_check
        award_present[OF has[OF ids(1)]] award_present[OF has[OF ids(2)]]
        award_present[OF has[OF ids(3)]] award_present[OF has[OF ids(4)]])
qed

lemma check_idem: "checkAndAwardBadges (checkAndAwardBadges s) = checkAndAwardBadges s"
proof -
  have "checkAndAwardBadges (checkAndAwardBadges s)
          = (checkAndAwardBadges s)\<lparr>badges := mapValues (earnedBadges s)\<rparr>"
    by (simp only: checkAndAwardBadges_def[of "checkAndAwardBadges s"] earnedBadges_check)
  also have "\<dots> = checkAndAwardBadges s" by (simp add: checkAndAwardBadges_def)
  finally show ?thesis .
qed

lemma badges_kept:
  assumes "distinct (map badge_id (badges s))"
  shows "take (length (badges s)) (badges (checkAndAwardBadges s)) = badges s"
proof -
  let ?m0 = "map (\<lambda>b. (badge_id b, b)) (badges s)"
  have d: "distinct (map fst ?m0)" using assms by (simp add: comp_def)
  have grow: "\<exists>new. award c bid m = m @ new" for c bid m
    by (simp add: award_eq)
  obtain n1 where "award (badgeCondition s ''streak-7'') ''streak-7'' ?m0 = ?m0 @ n1"
    using grow by blast
  moreover obtain n2 where "award (badgeCondition s ''consistency-90'') ''consistency-90'' (?m0 @ n1)
      = (?m0 @ n1) @ n2" using grow by blast
  moreover obtain n3 where "award (badgeCondition s ''deep-thinker'') ''deep-thinker'' ((?m0 @ n1) @ n2)
      = ((?m0 @ n1) @ n2) @ n3" using grow by blast
  moreover obtain n4 where "award (badgeCondition s ''quiz-whiz'') ''quiz-whiz'' (((?m0 @ n1) @ n2) @ n3)
      = (((?m0 @ n1) @ n2) @ n3) @ n4" using grow by blast
  ultimately have "earnedBadges s = ?m0 @ (n1 @ n2 @ n3 @ n4)"
    by (simp add: earnedBadges_chain newMap_distinct[OF d])
  then have "badges (checkAndAwardBadges s) = badges s @ map snd (n1 @ n2 @ n3 @ n4)"
    by (simp add: check_fields mapValues_def comp_def)
  then show ?thesis by simp
qed

section \<open>At-risk students\<close>

declare showNat.simps [simp del]

lemma jsSlice_take: "0 \<le> n \<Longrightarrow> jsSlice 0 n xs = take (nat n) xs"
  by (auto simp: jsSlice_def sliceIndex_def Let_def min_def)

lemma dashboardAtRisk_take:
  "dashboardAtRisk students allEntries = take 5 (atRiskStudents students allEntries)"
  by (simp add: dashboardAtRisk_def jsSlice_take)

text \<open>
  A student whose id occurs in none of the date strings has no record selected, and is
  listed for a low reflection depth whatever the consistency score.
\<close>

lemma studentEntries_without_match:
  assumes "\<forall>e \<in> set allEntries. \<not> includesStr (date e) (studentId s)"
  shows "studentEntries allEntries s = []"
  using assms by (simp add: studentEntries_def filter_empty_conv)

lemma at_risk_without_match:
  assumes "\<forall>e \<in> set allEntries. \<not> includesStr (date e) (studentId s)"
  shows "atRiskFilter allEntries s"
    and "reason (atRiskMap allEntries s) = ''Low reflection depth''"
    and "missedGoals (atRiskMap allEntries s) = 0"
  by (simp_all add: atRiskFilter_def atRiskMap_def Let_def
      studentEntries_without_match[OF assms] missedGoalsOf_def avgDepthOf_def)

lemmas risk_eval = studentEntries_def pupil_def reflectionEntry_def goalReflectionEntry_def

section \<open>Reordering the records\<close>

lemma forEachBody_commute:
  "forEachBody (forEachBody acc a) b = forEachBody (forEachBody acc b) a"
  by (simp add: forEachBody_normal[of _ a] forEachBody_normal[of _ b] ac_simps)

lemma foldl_forEachBody_perm:
  assumes "mset xs = mset ys"
  shows "foldl forEachBody acc xs = foldl forEachBody acc ys"
proof -
  have "fold (\<lambda>e acc. forEachBody acc e) xs = fold (\<lambda>e acc. forEachBody acc e) ys"
    by (rule fold_multiset_equiv) (auto simp: forEachBody_commute assms)
  then show ?thesis by (simp add: foldl_conv_fold)
qed

lemma dayEngagement_perm:
  assumes "mset es = mset es'"
  shows "dayEngagement gt toIso es d = dayEngagement gt toIso es' d"
proof -
  have "mset (filter (\<lambda>entry. setHours0 (gt (date entry)) = d) es)
          = mset (filter (\<lambda>entry. setHours0 (gt (date entry)) = d) es')"
    using assms by simp
  then show ?thesis
    by (simp add: dayEngagement_def Let_def foldl_forEachBody_perm[OF \<open>mset (filter _ es) = _\<close>])
qed

lemma calculateDailyEngagement_perm:
  assumes "mset es = mset es'"
  shows "calculateDailyEngagement gt toIso now es = calculateDailyEngagement gt toIso now es'"
proof -
  have l: "length es = length es'" using assms by (rule mset_eq_length)
  have d: "dayEngagement gt toIso es = dayEngagement gt toIso es'"
    by (rule ext) (rule dayEngagement_perm[OF assms])
  show ?thesis by (simp only: calculateDailyEngagement_def l d)
qed

lemma sort_key_perm:
  assumes "mset es = mset es'" and "inj_on f (set es)"
  shows "sort_key f es = sort_key f es'"
  by (rule sort_key_inj_key_eq) (simp_all add: assms)

lemma calculateConsistencyAndStreak_perm:
  assumes p: "mset es = mset es'" and d: "distinctTimestamps gt es"
  shows "calculateConsistencyAndStreak gt now es = calculateConsistencyAndStreak gt now es'"
proof -
  have l: "length es = length es'" using p by (rule mset_eq_length)
  have i: "inj_on (\<lambda>e. gt (date e)) (set es)" using d by (simp add: distinctTimestamps_def distinct_map)
  then have i': "inj_on (\<lambda>e. - gt (date e)) (set es)" by (auto simp: inj_on_def)
  have s: "sort_key (\<lambda>e. gt (date e)) es = sort_key (\<lambda>e. gt (date e)) es'"
    using p i by (rule sort_key_perm)
  have s': "sort_key (\<lambda>e. - gt (date e)) es = sort_key (\<lambda>e. - gt (date e)) es'"
    using p i' by (rule sort_key_perm)
  show ?thesis by (simp only: calculateConsistencyAndStreak_def l s s')
qed

section \<open>Streak\<close>











section \<open>The thirty entries of the engagement series\<close>




text \<open>
  The \<^verbatim>\<open>date\<close> of an entry is the date in UTC of the day's local midnight. For a clock
  in UTC the last entry is dated today; five and a half hours east of UTC the same
  moment gives a last entry dated yesterday.
\<close>

lemma last_entry_date:
  "day_date (dailyEngagement (calculateDailyEngagement isoTime isoDate clock threeDays) ! 29)
     = ''2024-03-10''"
  "day_date (dailyEngagement
       (calculateDailyEngagement (localTime eastOffset) (utcDate eastOffset)
          (clock + eastOffset) threeDays) ! 29)
     = ''2024-03-09''"
proof -
  have ne: "threeDays \<noteq> []" by (simp add: threeDays_def)
  have m: "setHours0 clock = 1710028800000" "setHours0 (clock + eastOffset) = 1710028800000"
    by (simp_all add: clock_def timestamps setHours0_def msPerDay_def eastOffset_def)
  have d: "isoDate 1710028800000 = ''2024-03-10''"
    "isoDate (1710028800000 - eastOffset) = ''2024-03-09''"
    by code_simp+
  show "day_date (dailyEngagement (calculateDailyEngagement isoTime isoDate clock threeDays) ! 29)
     = ''2024-03-10''"
    using ne by (simp add: dailyEngagement_nth dayEngagement_fields m d)
  show "day_date (dailyEngagement
       (calculateDailyEngagement (localTime eastOffset) (utcDate eastOffset)
          (clock + eastOffset) threeDays) ! 29)
     = ''2024-03-09''"
    using ne by (simp add: dailyEngagement_nth dayEngagement_fields m utcDate_def d)
qed

section \<open>The per-day engagement score\<close>




section \<open>A day whose only activity is a quiz with score 0\<close>

text \<open>
  Claim C9. For every record list, a calendar day of the thirty whose records have no
  goal, no reflection and a quiz with score 0 gets the per-day engagement score 0: it is
  not one of the days counted by activeDays and the engagement streak cannot reach back
  past it, although hasQuiz is set for that day and each of its records is an active
  record for the consistency and streak computation.
\<close>

theorem zero_score_quiz_day:
  assumes i: "i < 30"
    and d: "d = setHours0 now - (29 - int i) * msPerDay"
    and some: "recordsOfDay gt es d \<noteq> []"
    and only: "list_all onlyZeroQuiz (recordsOfDay gt es d)"
  shows "engagementScore (dailyEngagement (calculateDailyEngagement gt toIso now es) ! i) = 0
       \<and> hasQuiz (dailyEngagement (calculateDailyEngagement gt toIso now es) ! i)
       \<and> i \<notin> positiveDays (calculateDailyEngagement gt toIso now es)
       \<and> activeDays (calculateDailyEngagement gt toIso now es)
           = card (positiveDays (calculateDailyEngagement gt toIso now es) - {i})
       \<and> streakDays (calculateDailyEngagement gt toIso now es) \<le> 29 - i
       \<and> list_all isActive (recordsOfDay gt es d)"
proof -
  let ?m = "calculateDailyEngagement gt toIso now es"
  have ne: "es \<noteq> []" using some by (auto simp: recordsOfDay_def)
  have nth: "dailyEngagement ?m ! i = dayEngagement gt toIso es d"
    using ne i d by (simp add: dailyEngagement_nth)
  have len: "length (dailyEngagement ?m) = 30"
    using ne by (simp add: dailyEngagement_nonempty length_last30Days)
  have "\<forall>x \<in> set (map entryPoints (recordsOfDay gt es d)). x = 0"
    using only by (auto simp: entryPoints_onlyZeroQuiz list_all_iff)
  then have "sum_list (map entryPoints (recordsOfDay gt es d)) = 0"
    by (rule sum_list_zero)
  then have zero: "engagementScore (dailyEngagement ?m ! i) = 0"
    by (simp add: nth engagementScore_dayEngagement dayScoreSpec_def)
  have quiz: "\<forall>e \<in> set (recordsOfDay gt es d). quizEvaluation e \<noteq> None"
    using only by (auto simp: list_all_iff onlyZeroQuiz_def split: option.splits)
  then have hq: "hasQuiz (dailyEngagement ?m ! i)"
    using some by (simp add: nth hasQuiz_dayEngagement) (meson last_in_set)
  have notin: "i \<notin> positiveDays ?m" using zero by (simp add: positiveDays_set)
  have act: "activeDays ?m = card (positiveDays ?m - {i})"
    using notin by (simp add: activeDays_positiveDays)
  have "rev (dailyEngagement ?m) ! (29 - i) = dailyEngagement ?m ! i"
    using i len by (simp add: rev_nth)
  then have "\<not> 0 < engagementScore (rev (dailyEngagement ?m) ! (29 - i))"
    using zero by simp
  moreover have "29 - i < length (rev (dailyEngagement ?m))" using len by simp
  ultimately have "length (takeWhile (\<lambda>day. 0 < engagementScore day) (rev (dailyEngagement ?m))) \<le> 29 - i"
    by (rule length_takeWhile_stop[rotated])
  then have str: "streakDays ?m \<le> 29 - i" using ne by (simp add: streakDays_takeWhile)
  have "list_all isActive (recordsOfDay gt es d)"
    using quiz by (simp add: list_all_iff isActive_def)
  then show ?thesis using zero hq notin act str by simp
qed

theorem zero_score_quiz_day_witness:
  "engagementScore (dailyEngagement (calculateDailyEngagement isoTime isoDate clock zeroQuizToday) ! 29) = 0
   \<and> hasQuiz (dailyEngagement (calculateDailyEngagement isoTime isoDate clock zeroQuizToday) ! 29)
   \<and> streakDays (calculateDailyEngagement isoTime isoDate clock zeroQuizToday) = 0
   \<and> list_all isActive zeroQuizToday
   \<and> calculateConsistencyAndStreak isoTime clock zeroQuizToday = (100, 1)"
proof -
  have d: "setHours0 clock = setHours0 clock - (29 - int 29) * msPerDay" by simp
  have r: "recordsOfDay isoTime zeroQuizToday (setHours0 clock) = zeroQuizToday"
    by (simp add: recordsOfDay_def zeroQuizToday_def quizEntry_def timestamps clock_def
        setHours0_def msPerDay_def)
  have some: "recordsOfDay isoTime zeroQuizToday (setHours0 clock) \<noteq> []"
    unfolding r by (simp add: zeroQuizToday_def)
  have only: "list_all onlyZeroQuiz (recordsOfDay isoTime zeroQuizToday (setHours0 clock))"
    unfolding r by (simp add: zeroQuizToday_def quizEntry_def onlyZeroQuiz_def)
  have cs: "calculateConsistencyAndStreak isoTime clock zeroQuizToday = (100, 1)"
    by (simp add: streak_eval zeroQuizToday_def quizEntry_def floor_eq_iff)
  show ?thesis
    using zero_score_quiz_day[OF _ d some only] cs unfolding r by simp
qed

section \<open>Which badges are granted\<close>




section \<open>Badges are kept, and a second run changes nothing\<close>

text \<open>
  Claim C7. The computation never removes a badge: every badge id held before is held
  afterwards, whether or not its condition still holds, and when the ids held before are
  pairwise different the list held before is an initial part of the list held afterwards.
  Running the computation on its own result returns that result.
\<close>

theorem badges_monotone_idempotent:
  "badgeIds s \<subseteq> badgeIds (checkAndAwardBadges s)
   \<and> (distinct (map badge_id (badges s))
        \<longrightarrow> take (length (badges s)) (badges (checkAndAwardBadges s)) = badges s)
   \<and> checkAndAwardBadges (checkAndAwardBadges s) = checkAndAwardBadges s"
  using badgeIds_check[of s] check_idem[of s] badges_kept[of s] by auto

theorem badges_monotone_idempotent_witness:
  "''streak-7'' \<in> badgeIds veteran \<and> \<not> badgeCondition veteran ''streak-7''
   \<and> ''streak-7'' \<in> badgeIds (checkAndAwardBadges veteran)
   \<and> take 1 (badges (checkAndAwardBadges veteran)) = badges veteran
   \<and> checkAndAwardBadges (checkAndAwardBadges veteran) = checkAndAwardBadges veteran"
proof -
  have h: "''streak-7'' \<in> badgeIds veteran"
    by (simp add: veteran_def badge_eval findBadge_def)
  have c: "\<not> badgeCondition veteran ''streak-7''"
    by (simp add: veteran_def badge_eval)
  have d: "distinct (map badge_id (badges veteran))" "length (badges veteran) = 1"
    by (simp_all add: veteran_def learner_def)
  show ?thesis
    using badges_monotone_idempotent[of veteran] h c d by auto
qed

section \<open>The at-risk list of the dashboard\<close>

text \<open>
  Claim C2. A student is at-risk exactly when, among the student's records, more than 2
  goals are present and not completed, or the mean reflection depth is below 2, or the
  consistency score is below 60. The dashboard does not meet it: it takes for a
  student's records those whose date string contains the student's id, which no stored
  timestamp does. The student \<open>uid123\<close> with a consistency score of 100 and three records
  of their own, each with a completed goal and a reflection of depth 5, meets none of
  the three conditions; the dashboard selects none of the records and lists the student
  for a low reflection depth.
\<close>

theorem at_risk_ignores_own_records:
  "\<not> atRiskAsClaimed ownRecords (pupil ''uid123'' 100)
   \<and> studentEntries ownRecords (pupil ''uid123'' 100) = []
   \<and> map risk_id (dashboardAtRisk [pupil ''uid123'' 100] ownRecords) = [''uid123'']
   \<and> map reason (dashboardAtRisk [pupil ''uid123'' 100] ownRecords) = [''Low reflection depth'']"
proof -
  have c: "\<not> atRiskAsClaimed ownRecords (pupil ''uid123'' 100)"
    by (simp add: atRiskAsClaimed_def missedPresentGoals_def meanDepth_def depthsOf_def
        mean_def ownRecords_def risk_eval)
  have n: "\<forall>e \<in> set ownRecords. \<not> includesStr (date e) (studentId (pupil ''uid123'' 100))"
    by (simp add: ownRecords_def risk_eval)
  have i: "risk_id (atRiskMap ownRecords (pupil ''uid123'' 100)) = ''uid123''"
    by (simp add: atRiskMap_def Let_def pupil_def)
  show ?thesis
    using c studentEntries_without_match[OF n] at_risk_without_match[OF n] i
    by (simp add: dashboardAtRisk_take atRiskStudents_def)
qed

section \<open>The fallback reason is never reported\<close>

text \<open>
  Claim C10. Every entry of the dashboard's at-risk list carries one of the three
  specific reasons, missed goals (with the count, which exceeds 2), low reflection depth
  or low consistency score; the fallback reason ``Multiple issues'' never appears,
  because a student passes the filter only when one of the three conditions holds.
\<close>

theorem at_risk_reason_specific:
  assumes "r \<in> set (dashboardAtRisk students allEntries)"
  shows "reason r \<noteq> ''Multiple issues''
       \<and> (reason r = ''Missed '' @ showNat (missedGoals r) @ '' goals'' \<and> 2 < missedGoals r
          \<or> reason r = ''Low reflection depth''
          \<or> reason r = ''Low consistency score'')"
proof -
  from assms have "r \<in> set (atRiskStudents students allEntries)"
    by (auto simp: dashboardAtRisk_take dest: in_set_takeD)
  then obtain s where s: "atRiskFilter allEntries s" and r: "r = atRiskMap allEntries s"
    by (auto simp: atRiskStudents_def)
  have m: "missedGoals r = missedGoalsOf (studentEntries allEntries s)"
    by (simp add: r atRiskMap_def Let_def)
  show ?thesis
    using s unfolding r atRiskFilter_def atRiskMap_def Let_def by auto
qed


theorem at_risk_reason_specific_witness:
  "atRiskMap marchDone (pupil ''u1'' 50) \<in> set (dashboardAtRisk classroom marchDone)
   \<and> reason (atRiskMap marchDone (pupil ''u1'' 50)) \<noteq> ''Multiple issues''"
proof -
  have "\<forall>e \<in> set marchDone. \<not> includesStr (date e) (studentId (pupil ''u1'' 50))"
    by (simp add: marchDone_def risk_eval)
  then have "atRiskFilter marchDone (pupil ''u1'' 50)"
    by (rule at_risk_without_match)
  then have "dashboardAtRisk classroom marchDone
      = take 5 (atRiskMap marchDone (pupil ''u1'' 50)
          # map (atRiskMap marchDone) (filter (atRiskFilter marchDone) (tl classroom)))"
    by (simp add: dashboardAtRisk_take atRiskStudents_def classroom_def)
  then have m: "atRiskMap marchDone (pupil ''u1'' 50) \<in> set (dashboardAtRisk classroom marchDone)"
    by (simp add: numeral_eq_Suc)
  show ?thesis using at_risk_reason_specific[OF m] m by simp
qed

section \<open>The computations and the order of the records\<close>

text \<open>
  Claim C8, amended. With the clock fixed, the engagement computation returns the same
  result on any two orderings of the same records, and the consistency and streak
  computation does so when no two records carry the same timestamp. All three are
  functions of the record list and the clock alone, so that a second run on the same
  list returns the same output.
\<close>

theorem order_of_records_irrelevant:
  assumes "mset es = mset es'"
  shows "calculateDailyEngagement gt toIso now es = calculateDailyEngagement gt toIso now es'
       \<and> (distinctTimestamps gt es
            \<longrightarrow> calculateConsistencyAndStreak gt now es = calculateConsistencyAndStreak gt now es')"
  using assms calculateDailyEngagement_perm calculateConsistencyAndStreak_perm by blast

theorem order_of_records_irrelevant_witness:
  "mset threeDays = mset threeDaysShuffled
   \<and> distinctTimestamps isoTime threeDays
   \<and> calculateDailyEngagement isoTime isoDate clock threeDays
       = calculateDailyEngagement isoTime isoDate clock threeDaysShuffled
   \<and> calculateConsistencyAndStreak isoTime clock threeDays
       = calculateConsistencyAndStreak isoTime clock threeDaysShuffled"
proof -
  have p: "mset threeDays = mset threeDaysShuffled"
    by (simp add: threeDays_def threeDaysShuffled_def)
  have d: "distinctTimestamps isoTime threeDays"
    by (simp add: distinctTimestamps_def threeDays_def goalEntry_def timestamps)
  show ?thesis using order_of_records_irrelevant[OF p, of isoTime isoDate clock] p d by simp
qed

text \<open>
  For every record list the claim fails: the sorts are stable, so two records with the
  same timestamp stay in input order, and when one of them is active and the other has
  no activity the streak depends on which comes first.
\<close>

theorem order_of_tied_records_counterexample:
  "mset [goalEntry ''2024-03-10T08:00:00.000Z'' True, emptyEntry ''2024-03-10T08:00:00.000Z'']
     = mset [emptyEntry ''2024-03-10T08:00:00.000Z'', goalEntry ''2024-03-10T08:00:00.000Z'' True]
   \<and> calculateConsistencyAndStreak isoTime clock
        [goalEntry ''2024-03-10T08:00:00.000Z'' True, emptyEntry ''2024-03-10T08:00:00.000Z'']
       = (50, 1)
   \<and> calculateConsistencyAndStreak isoTime clock
        [emptyEntry ''2024-03-10T08:00:00.000Z'', goalEntry ''2024-03-10T08:00:00.000Z'' True]
       = (50, 0)"
  by (simp add: streak_eval emptyEntry_def floor_eq_iff)

section \<open>Consistency score\<close>

lemma length_consistencyWindow: "length (consistencyWindow gt es) = min 30 (length es)"
  by (simp add: consistencyWindow_def lastRecords_def)

lemma consistency_eq: "fst (calculateConsistencyAndStreak gt now es) = consistencySpec gt es"
proof (cases "es = []")
  case True
  then show ?thesis by (simp add: calculateConsistencyAndStreak_def consistencySpec_def)
next
  case False
  have w: "jsSliceFrom (- 30) (sort_key (\<lambda>e. gt (date e)) es) = consistencyWindow gt es"
    by (simp add: jsSliceFrom_neg consistencyWindow_def lastRecords_def min_def)
  show ?thesis using False
    by (simp add: calculateConsistencyAndStreak_def consistencySpec_def Let_def w
        length_consistencyWindow mult.commute)
qed

lemma consistencySpec_range: "0 \<le> consistencySpec gt es \<and> consistencySpec gt es \<le> 100"
proof (cases "es = []")
  case True
  then show ?thesis by (simp add: consistencySpec_def)
next
  case False
  let ?w = "consistencyWindow gt es"
  let ?a = "length (filter isActive ?w)"
  have pos: "0 < length ?w" using False by (simp add: length_consistencyWindow)
  have le: "?a \<le> length ?w" by simp
  have "(100 * of_nat ?a / of_nat (length ?w) :: rat) \<le> 100 * of_nat (length ?w) / of_nat (length ?w)"
    using le pos by (intro divide_right_mono mult_left_mono) simp_all
  then have "(100 * of_nat ?a / of_nat (length ?w) :: rat) \<le> of_int 100" using pos by simp
  moreover have "(0::rat) \<le> 100 * of_nat ?a / of_nat (length ?w)" by simp
  ultimately show ?thesis using False jsRound_range[of "100 * of_nat ?a / of_nat (length ?w)" 100]
    by (simp add: consistencySpec_def)
qed

text \<open>
  Claim C4. For every record list the consistency score is
  \<open>round (100 * active / size)\<close> over the window of the last \<open>min 30 n\<close> records in
  date order, a record being active when it has a goal, a reflection or a quiz result;
  it is 0 for no records, and it always lies between 0 and 100.
\<close>

theorem consistency_score_window:
  "fst (calculateConsistencyAndStreak gt now es) = consistencySpec gt es
   \<and> length (consistencyWindow gt es) = min 30 (length es)
   \<and> fst (calculateConsistencyAndStreak gt now []) = 0
   \<and> 0 \<le> fst (calculateConsistencyAndStreak gt now es)
   \<and> fst (calculateConsistencyAndStreak gt now es) \<le> 100"
  using consistency_eq[of gt now es] consistencySpec_range[of gt es]
    length_consistencyWindow[of gt es] consistency_eq[of gt now "[]"]
  by (simp add: consistencySpec_def)

theorem consistency_score_window_witness:
  "fst (calculateConsistencyAndStreak isoTime clock [goalEntry ''2024-03-10T08:00:00.000Z'' True]) = 100
   \<and> consistencySpec isoTime [goalEntry ''2024-03-10T08:00:00.000Z'' True] = 100"
  using consistency_score_window[of isoTime clock "[goalEntry ''2024-03-10T08:00:00.000Z'' True]"]
  by (simp add: consistencySpec_def consistencyWindow_def lastRecords_def isActive_def
      goalEntry_def jsRound_def floor_eq_iff)

end
